theory Spec2Isabelle
  imports Main
begin

section \<open>Python values and exceptions\<close>

text \<open>
  The repository is Python. Dataclass fields and dictionary entries hold arbitrary Python
  values whatever their annotations say, so they are modelled by one type of values.
  \<open>PEnum\<close> is a member of the enumeration \<open>SelectorType\<close> of
  \<^verbatim>\<open>app/models/domain_config.py\<close>; a dictionary is an association list in
  insertion order.
\<close>

datatype SelectorType = XPATH | CSS

datatype pyval =
    PNone
  | PBool bool
  | PInt int
  | PStr string
  | PEnum SelectorType
  | PList "pyval list"
  | PDict "(string \<times> pyval) list"

text \<open>Python's truth value of an object, as tested by \<^verbatim>\<open>if x:\<close>.\<close>

fun truthy :: "pyval \<Rightarrow> bool" where
  "truthy PNone = False"
| "truthy (PBool b) = b"
| "truthy (PInt i) = (i \<noteq> 0)"
| "truthy (PStr s) = (s \<noteq> [])"
| "truthy (PEnum e) = True"
| "truthy (PList xs) = (xs \<noteq> [])"
| "truthy (PDict kvs) = (kvs \<noteq> [])"

text \<open>
  Exceptions: the class and the message (\<^verbatim>\<open>str(e)\<close>). The first three classes
  are those of \<^verbatim>\<open>app/core/exceptions.py\<close>; \<open>MissingContentError\<close> and
  \<open>ExtractionError\<close> are imported by the task managers.
\<close>

datatype exn_class =
    ScrapingException
  | ConfigGenerationError
  | ContentExtractionError
  | MissingContentError
  | ExtractionError
  | Timeout
  | AttributeError
  | TypeError
  | KeyError
  | ValueError
  | OtherError

datatype exn = Exn exn_class string

fun exn_cls :: "exn \<Rightarrow> exn_class" where
  "exn_cls (Exn c m) = c"

fun str_exn :: "exn \<Rightarrow> string" where
  "str_exn (Exn c m) = m"

section \<open>The extraction engine: \<^verbatim>\<open>app/scrapers/content_scraper.py\<close>\<close>

text \<open>
  \<^verbatim>\<open>ExtractionRule\<close> of \<^verbatim>\<open>app/models/domain_config.py\<close>.
\<close>

record ExtractionRule =
  selector :: pyval
  selector_type :: pyval
  attribute :: pyval
  post_process :: pyval

text \<open>
  What the selector engine hands back. A \<open>Tag\<close> carries its attributes and the text
  that \<^verbatim>\<open>get_text(strip=True)\<close> returns; \<open>NoneElem\<close> is Python's
  \<^verbatim>\<open>None\<close>, which the code tests for; \<open>Opaque\<close> is an object that has neither
  \<^verbatim>\<open>get\<close> nor \<^verbatim>\<open>get_text\<close>.
\<close>

datatype element = Tag "(string \<times> string) list" string | NoneElem | Opaque



text \<open>
  The parsed document is the \<^verbatim>\<open>BeautifulSoup\<close> object. The code uses two of its
  methods, \<^verbatim>\<open>soup.select(sel)\<close> and \<^verbatim>\<open>soup.find_all(xpath=sel)\<close>; both return
  the matching elements in document order, or raise.
\<close>

record soup =
  soup_select :: "pyval \<Rightarrow> exn + element list"
  soup_find_all :: "pyval \<Rightarrow> exn + element list"

text \<open>
  \<^verbatim>\<open>element.get(key)\<close>: the attribute's value or \<^verbatim>\<open>None\<close>. A list or a dict
  as key is unhashable (\<^verbatim>\<open>TypeError\<close>); an object without \<^verbatim>\<open>get\<close> raises
  \<^verbatim>\<open>AttributeError\<close>.
\<close>

fun element_get :: "element \<Rightarrow> pyval \<Rightarrow> exn + string option" where
  "element_get (Tag as t) (PStr k) = Inr (map_of as k)"
| "element_get (Tag as t) (PList xs) = Inl (Exn TypeError ''unhashable type'')"
| "element_get (Tag as t) (PDict kvs) = Inl (Exn TypeError ''unhashable type'')"
| "element_get (Tag as t) k = Inr None"
| "element_get NoneElem k = Inl (Exn AttributeError ''get'')"
| "element_get Opaque k = Inl (Exn AttributeError ''get'')"

fun element_get_text :: "element \<Rightarrow> exn + string" where
  "element_get_text (Tag as t) = Inr t"
| "element_get_text NoneElem = Inl (Exn AttributeError ''get_text'')"
| "element_get_text Opaque = Inl (Exn AttributeError ''get_text'')"

text \<open>
  \<^verbatim>\<open>ContentScraper._extract_with_selector\<close>. The whole body stands in
  \<^verbatim>\<open>try: ... except Exception: return None\<close>; the inner handler catches only
  \<^verbatim>\<open>AttributeError\<close> from \<^verbatim>\<open>get_text\<close>. Logging is left out.
\<close>

definition ContentScraper_extract_with_selector_body ::
  "soup \<Rightarrow> ExtractionRule \<Rightarrow> exn + string option" where
  "ContentScraper_extract_with_selector_body sp rule =
     (case (if selector_type rule = PEnum CSS then soup_select sp (selector rule)
            else soup_find_all sp (selector rule)) of
        Inl e \<Rightarrow> Inl e
      | Inr elements \<Rightarrow>
          (case elements of
             [] \<Rightarrow> Inr None
           | element # rest \<Rightarrow>
               if element = NoneElem then Inr None
               else if truthy (attribute rule) then element_get element (attribute rule)
               else (case element_get_text element of
                       Inr t \<Rightarrow> Inr (Some t)
                     | Inl e \<Rightarrow> if exn_cls e = AttributeError then Inr None else Inl e)))"

definition ContentScraper_extract_with_selector ::
  "soup \<Rightarrow> ExtractionRule \<Rightarrow> exn + string option" where
  "ContentScraper_extract_with_selector sp rule =
     (case ContentScraper_extract_with_selector_body sp rule of
        Inr v \<Rightarrow> Inr v
      | Inl e \<Rightarrow> Inr None)"

text \<open>
  The loop of \<^verbatim>\<open>ContentScraper._extract_media\<close> over the selected elements, with
  the list \<^verbatim>\<open>urls\<close> it appends to. \<^verbatim>\<open>if url:\<close> holds for a value that
  is neither \<^verbatim>\<open>None\<close> nor the empty string.
\<close>

fun ContentScraper_extract_media_loop ::
  "pyval \<Rightarrow> element list \<Rightarrow> string list \<Rightarrow> exn + string list" where
  "ContentScraper_extract_media_loop attr [] urls = Inr urls"
| "ContentScraper_extract_media_loop attr (element # rest) urls =
     (if truthy attr then
        (case element_get element attr of
           Inl e \<Rightarrow> Inl e
         | Inr None \<Rightarrow> ContentScraper_extract_media_loop attr rest urls
         | Inr (Some url) \<Rightarrow>
             if url \<noteq> []
             then ContentScraper_extract_media_loop attr rest (urls @ [url])
             else ContentScraper_extract_media_loop attr rest urls)
      else ContentScraper_extract_media_loop attr rest urls)"

text \<open>
  \<^verbatim>\<open>ContentScraper._extract_media\<close>: any exception makes the result the empty list.
\<close>

definition ContentScraper_extract_media :: "soup \<Rightarrow> ExtractionRule \<Rightarrow> exn + string list" where
  "ContentScraper_extract_media sp rule =
     (case (case (if selector_type rule = PEnum CSS then soup_select sp (selector rule)
                  else soup_find_all sp (selector rule)) of
              Inl e \<Rightarrow> Inl e
            | Inr elements \<Rightarrow> ContentScraper_extract_media_loop (attribute rule) elements []) of
        Inr urls \<Rightarrow> Inr urls
      | Inl e \<Rightarrow> Inr [])"

text \<open>
  The loop of \<^verbatim>\<open>ContentScraper.scrape\<close> that fills the dictionary
  \<^verbatim>\<open>content\<close>, one entry per field rule, in the order of
  \<^verbatim>\<open>config.extraction_rules.items()\<close>. An exception of a field's extraction would
  leave the loop.
\<close>

fun ContentScraper_scrape_fields ::
  "soup \<Rightarrow> (string \<times> ExtractionRule) list \<Rightarrow> (string \<rightharpoonup> string option)
     \<Rightarrow> exn + (string \<rightharpoonup> string option)" where
  "ContentScraper_scrape_fields sp [] content = Inr content"
| "ContentScraper_scrape_fields sp ((field, rule) # rest) content =
     (case ContentScraper_extract_with_selector sp rule of
        Inl e \<Rightarrow> Inl e
      | Inr v \<Rightarrow> ContentScraper_scrape_fields sp rest (content(field \<mapsto> v)))"

text \<open>
  The elements a rule selects in a document: the selection both extraction functions start
  with.
\<close>

definition matching_elements :: "soup \<Rightarrow> ExtractionRule \<Rightarrow> exn + element list" where
  "matching_elements sp rule =
     (if selector_type rule = PEnum CSS then soup_select sp (selector rule)
      else soup_find_all sp (selector rule))"

subsection \<open>The dictionary-driven variant: \<^verbatim>\<open>app/services/scraper.py\<close>\<close>

text \<open>\<^verbatim>\<open>d.get(key, default)\<close> on a dictionary.\<close>

definition dict_get :: "(string \<times> pyval) list \<Rightarrow> string \<Rightarrow> pyval \<Rightarrow> pyval" where
  "dict_get d k dflt = (case map_of d k of None \<Rightarrow> dflt | Some v \<Rightarrow> v)"





section \<open>Recipes: \<^verbatim>\<open>app/models/domain_config.py\<close>\<close>

text \<open>Sequencing of calls that may raise: the first exception leaves the sequence.\<close>

fun bind_exn :: "exn + 'a \<Rightarrow> ('a \<Rightarrow> exn + 'b) \<Rightarrow> exn + 'b" where
  "bind_exn (Inl e) f = Inl e"
| "bind_exn (Inr x) f = f x"

record MediaExtraction =
  images :: ExtractionRule
  videos :: ExtractionRule
  embeds :: ExtractionRule

record DomainConfig =
  domain :: pyval
  use_headless :: pyval
  use_proxy :: pyval
  timeout :: pyval
  user_agent :: pyval
  proxy_config :: pyval
  retry_count :: pyval
  extraction_rules :: "(string \<times> ExtractionRule) list"
  media_rules :: MediaExtraction

text \<open>
  \<^verbatim>\<open>x.value\<close>: the string of a member of \<^verbatim>\<open>SelectorType\<close>; no other value
  has the attribute.
\<close>

fun enum_value :: "pyval \<Rightarrow> exn + pyval" where
  "enum_value (PEnum XPATH) = Inr (PStr ''xpath'')"
| "enum_value (PEnum CSS) = Inr (PStr ''css'')"
| "enum_value v = Inl (Exn AttributeError ''value'')"

text \<open>
  The dictionary comprehension of \<^verbatim>\<open>to_dict\<close> over
  \<^verbatim>\<open>self.extraction_rules.items()\<close>: four keys for each rule.
\<close>

fun extraction_rules_to_dict ::
  "(string \<times> ExtractionRule) list \<Rightarrow> exn + (string \<times> pyval) list" where
  "extraction_rules_to_dict [] = Inr []"
| "extraction_rules_to_dict ((k, v) # rest) =
     bind_exn (enum_value (selector_type v)) (\<lambda>st.
     bind_exn (extraction_rules_to_dict rest) (\<lambda>ds.
       Inr ((k, PDict [(''selector'', selector v), (''selector_type'', st),
                       (''attribute'', attribute v), (''post_process'', post_process v)]) # ds)))"

text \<open>
  \<^verbatim>\<open>DomainConfig.to_dict\<close>. The dictionary of a media rule has three keys:
  \<^verbatim>\<open>selector\<close>, \<^verbatim>\<open>selector_type\<close> and \<^verbatim>\<open>attribute\<close>.
\<close>

definition DomainConfig_to_dict :: "DomainConfig \<Rightarrow> exn + pyval" where
  "DomainConfig_to_dict self =
     bind_exn (extraction_rules_to_dict (extraction_rules self)) (\<lambda>rules.
     bind_exn (enum_value (selector_type (images (media_rules self)))) (\<lambda>images_type.
     bind_exn (enum_value (selector_type (videos (media_rules self)))) (\<lambda>videos_type.
     bind_exn (enum_value (selector_type (embeds (media_rules self)))) (\<lambda>embeds_type.
       Inr (PDict
         [(''domain'', domain self),
          (''use_headless'', use_headless self),
          (''use_proxy'', use_proxy self),
          (''timeout'', timeout self),
          (''user_agent'', user_agent self),
          (''proxy_config'', proxy_config self),
          (''retry_count'', retry_count self),
          (''extraction_rules'', PDict rules),
          (''media_rules'', PDict
             [(''images'', PDict
                 [(''selector'', selector (images (media_rules self))),
                  (''selector_type'', images_type),
                  (''attribute'', attribute (images (media_rules self)))]),
              (''videos'', PDict
                 [(''selector'', selector (videos (media_rules self))),
                  (''selector_type'', videos_type),
                  (''attribute'', attribute (videos (media_rules self)))]),
              (''embeds'', PDict
                 [(''selector'', selector (embeds (media_rules self))),
                  (''selector_type'', embeds_type),
                  (''attribute'', attribute (embeds (media_rules self)))])])])))))"

section \<open>The recipe store and generator: \<^verbatim>\<open>app/services/schema_generator.py\<close>\<close>

text \<open>
  \<^verbatim>\<open>x[key]\<close>, \<^verbatim>\<open>x.get(key, default)\<close> and \<^verbatim>\<open>x.items()\<close> on a value:
  only a dictionary has them (a string or a list takes integer indices).
\<close>

fun py_getitem :: "pyval \<Rightarrow> string \<Rightarrow> exn + pyval" where
  "py_getitem (PDict d) k =
     (case map_of d k of None \<Rightarrow> Inl (Exn KeyError k) | Some v \<Rightarrow> Inr v)"
| "py_getitem v k = Inl (Exn TypeError ''getitem'')"

fun py_get :: "pyval \<Rightarrow> string \<Rightarrow> pyval \<Rightarrow> exn + pyval" where
  "py_get (PDict d) k dflt = Inr (dict_get d k dflt)"
| "py_get v k dflt = Inl (Exn AttributeError ''get'')"

fun py_items :: "pyval \<Rightarrow> exn + (string \<times> pyval) list" where
  "py_items (PDict d) = Inr d"
| "py_items v = Inl (Exn AttributeError ''items'')"

text \<open>
  \<^verbatim>\<open>SelectorType(x)\<close>: the member whose value is \<open>x\<close>, else
  \<^verbatim>\<open>ValueError\<close>.
\<close>

fun SelectorType_of :: "pyval \<Rightarrow> exn + pyval" where
  "SelectorType_of (PEnum e) = Inr (PEnum e)"
| "SelectorType_of (PStr s) =
     (if s = ''xpath'' then Inr (PEnum XPATH)
      else if s = ''css'' then Inr (PEnum CSS)
      else Inl (Exn ValueError s))"
| "SelectorType_of v = Inl (Exn ValueError ''SelectorType'')"

text \<open>
  \<^verbatim>\<open>ExtractionRule(**x)\<close>: the dataclass constructor called with the entries of
  \<open>x\<close> as keyword arguments. It stores the values as they are;
  \<^verbatim>\<open>attribute\<close> and \<^verbatim>\<open>post_process\<close> default to \<^verbatim>\<open>None\<close>. An unknown
  keyword, a missing \<^verbatim>\<open>selector\<close> or \<^verbatim>\<open>selector_type\<close>, or an \<open>x\<close>
  that is no mapping is a \<^verbatim>\<open>TypeError\<close>.
\<close>

fun ExtractionRule_kwargs :: "pyval \<Rightarrow> exn + ExtractionRule" where
  "ExtractionRule_kwargs (PDict d) =
     (if \<not> list_all (\<lambda>k. k \<in> set [''selector'', ''selector_type'', ''attribute'',
                                      ''post_process'']) (map fst d)
      then Inl (Exn TypeError ''unexpected keyword argument'')
      else case (map_of d ''selector'', map_of d ''selector_type'') of
             (Some s, Some st) \<Rightarrow>
               Inr \<lparr> selector = s, selector_type = st,
                     attribute = dict_get d ''attribute'' PNone,
                     post_process = dict_get d ''post_process'' PNone \<rparr>
           | _ \<Rightarrow> Inl (Exn TypeError ''missing required argument''))"
| "ExtractionRule_kwargs v = Inl (Exn TypeError ''argument after ** must be a mapping'')"

text \<open>
  The dictionary comprehension of \<^verbatim>\<open>_parse_config\<close> over
  \<^verbatim>\<open>data["extraction_rules"].items()\<close>.
\<close>

fun parse_extraction_rules ::
  "(string \<times> pyval) list \<Rightarrow> exn + (string \<times> ExtractionRule) list" where
  "parse_extraction_rules [] = Inr []"
| "parse_extraction_rules ((field, rule) # rest) =
     bind_exn (py_getitem rule ''selector'') (\<lambda>s.
     bind_exn (py_getitem rule ''selector_type'') (\<lambda>raw.
     bind_exn (SelectorType_of raw) (\<lambda>st.
     bind_exn (py_get rule ''attribute'' PNone) (\<lambda>a.
     bind_exn (py_get rule ''post_process'' PNone) (\<lambda>p.
     bind_exn (parse_extraction_rules rest) (\<lambda>rs.
       Inr ((field, \<lparr> selector = s, selector_type = st, attribute = a,
                      post_process = p \<rparr>) # rs)))))))"

text \<open>\<^verbatim>\<open>SchemaGenerator._parse_config\<close>.\<close>

definition SchemaGenerator_parse_config :: "pyval \<Rightarrow> exn + DomainConfig" where
  "SchemaGenerator_parse_config data =
     bind_exn (py_getitem data ''extraction_rules'') (\<lambda>rules_dict.
     bind_exn (py_items rules_dict) (\<lambda>items.
     bind_exn (parse_extraction_rules items) (\<lambda>rules.
     bind_exn (py_getitem data ''media_rules'') (\<lambda>media.
     bind_exn (py_getitem media ''images'') (\<lambda>images_dict.
     bind_exn (ExtractionRule_kwargs images_dict) (\<lambda>images_rule.
     bind_exn (py_getitem media ''videos'') (\<lambda>videos_dict.
     bind_exn (ExtractionRule_kwargs videos_dict) (\<lambda>videos_rule.
     bind_exn (py_getitem media ''embeds'') (\<lambda>embeds_dict.
     bind_exn (ExtractionRule_kwargs embeds_dict) (\<lambda>embeds_rule.
     bind_exn (py_getitem data ''domain'') (\<lambda>d.
     bind_exn (py_get data ''use_headless'' (PBool False)) (\<lambda>headless.
     bind_exn (py_get data ''use_proxy'' (PBool False)) (\<lambda>proxy.
     bind_exn (py_get data ''timeout'' (PInt 30)) (\<lambda>tmo.
     bind_exn (py_get data ''user_agent'' PNone) (\<lambda>agent.
     bind_exn (py_get data ''proxy_config'' PNone) (\<lambda>pconf.
     bind_exn (py_get data ''retry_count'' (PInt 3)) (\<lambda>retries.
       Inr \<lparr> domain = d, use_headless = headless, use_proxy = proxy, timeout = tmo,
             user_agent = agent, proxy_config = pconf, retry_count = retries,
             extraction_rules = rules,
             media_rules = \<lparr> images = images_rule, videos = videos_rule,
                               embeds = embeds_rule \<rparr> \<rparr>)))))))))))))))))"



text \<open>
  A recipe as the annotations of the dataclasses describe it: the selector type of every
  rule is a member of \<^verbatim>\<open>SelectorType\<close>.
\<close>

definition typed_rule :: "ExtractionRule \<Rightarrow> bool" where
  "typed_rule r = (case selector_type r of PEnum e \<Rightarrow> True | _ \<Rightarrow> False)"

text \<open>What a media rule is after \<^verbatim>\<open>to_dict\<close> and \<^verbatim>\<open>_parse_config\<close>.\<close>

definition reloaded_media_rule :: "ExtractionRule \<Rightarrow> ExtractionRule" where
  "reloaded_media_rule r =
     r \<lparr> selector_type := (case enum_value (selector_type r) of Inr s \<Rightarrow> s | Inl e \<Rightarrow> PNone),
         post_process := PNone \<rparr>"

subsection \<open>Generating a recipe\<close>





section \<open>Tasks: \<^verbatim>\<open>app/models/task_response.py\<close> and \<^verbatim>\<open>app/models/task.py\<close>\<close>

datatype TaskStatus = QUEUED | PROCESSING | COMPLETED | FAILED

text \<open>Timestamps are readings of \<^verbatim>\<open>datetime.utcnow()\<close>, in seconds.\<close>

record TaskResponse =
  task_id :: string
  url :: string
  status :: TaskStatus
  created_at :: nat
  updated_at :: nat
  completed_at :: "nat option"
  result :: "pyval option"
  error :: "string option"


section \<open>The Celery task manager: \<^verbatim>\<open>app/queue/task_manager.py\<close>\<close>

text \<open>\<^verbatim>\<open>self.tasks\<close>, the dictionary of tasks by id.\<close>

type_synonym task_store = "string \<rightharpoonup> TaskResponse"

text \<open>
  The three updates. Each one does nothing when the id is not in \<^verbatim>\<open>self.tasks\<close>;
  \<open>now\<close> is the clock reading.
\<close>

definition TaskManager_update_task_status ::
  "task_store \<Rightarrow> string \<Rightarrow> TaskStatus \<Rightarrow> nat \<Rightarrow> task_store" where
  "TaskManager_update_task_status tasks tid st now =
     (case tasks tid of
        None \<Rightarrow> tasks
      | Some task \<Rightarrow> tasks(tid \<mapsto> task \<lparr> status := st, updated_at := now \<rparr>))"

definition TaskManager_update_task_success ::
  "task_store \<Rightarrow> string \<Rightarrow> pyval \<Rightarrow> nat \<Rightarrow> task_store" where
  "TaskManager_update_task_success tasks tid res now =
     (case tasks tid of
        None \<Rightarrow> tasks
      | Some task \<Rightarrow>
          tasks(tid \<mapsto> task \<lparr> status := COMPLETED, completed_at := Some now,
                                updated_at := now, result := Some res \<rparr>))"

definition TaskManager_update_task_failure ::
  "task_store \<Rightarrow> string \<Rightarrow> string \<Rightarrow> nat \<Rightarrow> task_store" where
  "TaskManager_update_task_failure tasks tid err now =
     (case tasks tid of
        None \<Rightarrow> tasks
      | Some task \<Rightarrow>
          tasks(tid \<mapsto> task \<lparr> status := FAILED, completed_at := Some now,
                                updated_at := now, error := Some err \<rparr>))"

text \<open>
  What the variable \<^verbatim>\<open>config\<close> of \<^verbatim>\<open>process_task\<close> can hold:
  \<^verbatim>\<open>None\<close>, a dictionary (the type \<^verbatim>\<open>_update_config_settings\<close> is annotated
  with), or a \<^verbatim>\<open>DomainConfig\<close> object (what \<^verbatim>\<open>SchemaGenerator\<close> returns).
\<close>

datatype config_value = CNone | CDict "(string \<times> pyval) list" | CObject DomainConfig

fun truthy_config :: "config_value \<Rightarrow> bool" where
  "truthy_config CNone = False"
| "truthy_config (CDict d) = (d \<noteq> [])"
| "truthy_config (CObject c) = True"

text \<open>
  \<^verbatim>\<open>d[k] = v\<close> keeps the position of an existing key and appends a new one;
  \<^verbatim>\<open>{**a, **b}\<close> stores the entries of \<open>b\<close> into a copy of \<open>a\<close>.
\<close>

definition dict_set :: "(string \<times> pyval) list \<Rightarrow> string \<Rightarrow> pyval \<Rightarrow> (string \<times> pyval) list" where
  "dict_set d k v =
     (if k \<in> set (map fst d) then map (\<lambda>(k', v'). if k' = k then (k', v) else (k', v')) d
      else d @ [(k, v)])"

definition dict_merge ::
  "(string \<times> pyval) list \<Rightarrow> (string \<times> pyval) list \<Rightarrow> (string \<times> pyval) list" where
  "dict_merge a b = fold (\<lambda>(k, v) d. dict_set d k v) b a"

text \<open>
  The contents of the object \<^verbatim>\<open>config\<close> after the body of
  \<^verbatim>\<open>_update_config_settings\<close>. On a \<^verbatim>\<open>DomainConfig\<close> object
  \<^verbatim>\<open>config.get\<close> and the item assignment raise.
\<close>

definition config_after_settings :: "config_value \<Rightarrow> pyval \<Rightarrow> pyval \<Rightarrow> exn + config_value" where
  "config_after_settings config hdrs tmo =
     (case config of
        CDict d \<Rightarrow>
          bind_exn
            (if truthy hdrs then
               (case dict_get d ''headers'' (PDict []) of
                  PDict old \<Rightarrow>
                    (case hdrs of
                       PDict new \<Rightarrow> Inr (dict_set d ''headers'' (PDict (dict_merge old new)))
                     | _ \<Rightarrow> Inl (Exn TypeError ''not a mapping''))
                | _ \<Rightarrow> Inl (Exn TypeError ''not a mapping''))
             else Inr d)
            (\<lambda>d1. Inr (CDict (dict_set d1 ''timeout'' tmo)))
      | _ \<Rightarrow>
          if truthy hdrs then Inl (Exn AttributeError ''get'')
          else Inl (Exn TypeError ''item assignment''))"



text \<open>
  \<^verbatim>\<open>isinstance(e, ScrapingException)\<close>. The subclasses are those of
  \<^verbatim>\<open>app/core/exceptions.py\<close>; that file does not declare
  \<^verbatim>\<open>MissingContentError\<close> and \<^verbatim>\<open>ExtractionError\<close>, so whether they derive
  from \<^verbatim>\<open>ScrapingException\<close> is the parameter \<open>derived\<close>.
\<close>

definition is_ScrapingException :: "bool \<Rightarrow> exn \<Rightarrow> bool" where
  "is_ScrapingException derived e =
     (exn_cls e = ScrapingException \<or> exn_cls e = ConfigGenerationError
      \<or> exn_cls e = ContentExtractionError
      \<or> (derived \<and> (exn_cls e = MissingContentError \<or> exn_cls e = ExtractionError)))"

text \<open>
  What the collaborators answer during one execution of \<^verbatim>\<open>process_task\<close>: the
  clock, \<^verbatim>\<open>schema_generator.load_config\<close>, \<^verbatim>\<open>schema_generator.generate_config\<close>
  (first when nothing was loaded, then with \<^verbatim>\<open>force_refresh=True\<close>) and
  \<^verbatim>\<open>content_scraper.scrape\<close> (first attempt, then after the regeneration).
\<close>

record outcomes =
  now_start :: nat
  load_config_result :: "exn + config_value"
  generate_config_result :: "exn + config_value"
  scrape_result :: "exn + pyval"
  regenerate_config_result :: "exn + config_value"
  rescrape_result :: "exn + pyval"
  now_end :: nat

text \<open>The calls of collaborators an execution makes, in order.\<close>

datatype call = LoadConfig | GenerateConfig | RegenerateConfig | Scrape

text \<open>
  How an execution ends: it returns, or raises
  \<^verbatim>\<open>self.process_task.retry(exc=e, countdown=retry_delay, max_retries=3)\<close>.
\<close>

datatype signal = Returned | Retry exn nat

definition max_retries :: nat where
  "max_retries = 3"

text \<open>Lines 96 to 100 of \<^verbatim>\<open>process_task\<close>: get or generate the config.\<close>

definition TaskManager_get_or_generate :: "outcomes \<Rightarrow> call list \<times> (exn + config_value)" where
  "TaskManager_get_or_generate out =
     (case load_config_result out of
        Inl e \<Rightarrow> ([LoadConfig], Inl e)
      | Inr config \<Rightarrow>
          if \<not> truthy_config config
          then ([LoadConfig, GenerateConfig], generate_config_result out)
          else ([LoadConfig], Inr config))"

text \<open>
  Lines 105 to 132: the first scrape and, on \<^verbatim>\<open>MissingContentError\<close> or
  \<^verbatim>\<open>ExtractionError\<close>, the regeneration and the second scrape. The call at line
  118 stands outside the inner \<^verbatim>\<open>try\<close>, so its exception leaves the block as it
  is; an exception of the second scrape is wrapped into a \<^verbatim>\<open>ScrapingException\<close>.
\<close>

definition TaskManager_scrape_with_regeneration ::
  "task_store \<Rightarrow> string \<Rightarrow> pyval \<Rightarrow> pyval \<Rightarrow> outcomes
     \<Rightarrow> task_store \<times> call list \<times> (exn + unit)" where
  "TaskManager_scrape_with_regeneration tasks tid hdrs tmo out =
     (case scrape_result out of
        Inr res \<Rightarrow>
          (TaskManager_update_task_success tasks tid res (now_end out), [Scrape], Inr ())
      | Inl scrape_error \<Rightarrow>
          if exn_cls scrape_error = MissingContentError \<or> exn_cls scrape_error = ExtractionError
          then
            (case bind_exn (regenerate_config_result out)
                    (\<lambda>config. config_after_settings config hdrs tmo) of
               Inl e \<Rightarrow> (tasks, [Scrape, RegenerateConfig], Inl e)
             | Inr config \<Rightarrow>
                 (case rescrape_result out of
                    Inr res \<Rightarrow>
                      (TaskManager_update_task_success tasks tid res (now_end out),
                       [Scrape, RegenerateConfig, Scrape], Inr ())
                  | Inl retry_error \<Rightarrow>
                      (tasks, [Scrape, RegenerateConfig, Scrape],
                       Inl (Exn ScrapingException
                              (''Scraping failed after config regeneration: ''
                                 @ str_exn retry_error)))))
          else (tasks, [Scrape], Inl scrape_error))"

text \<open>Lines 93 to 132: the body of the outer \<^verbatim>\<open>try\<close>.\<close>

definition TaskManager_process_task_body ::
  "task_store \<Rightarrow> string \<Rightarrow> pyval \<Rightarrow> pyval \<Rightarrow> outcomes
     \<Rightarrow> task_store \<times> call list \<times> (exn + unit)" where
  "TaskManager_process_task_body tasks tid hdrs tmo out =
     (let tasks1 = TaskManager_update_task_status tasks tid PROCESSING (now_start out);
          (calls, resolved) = TaskManager_get_or_generate out
      in case bind_exn resolved (\<lambda>config. config_after_settings config hdrs tmo) of
           Inl e \<Rightarrow> (tasks1, calls, Inl e)
         | Inr config \<Rightarrow>
             (case TaskManager_scrape_with_regeneration tasks1 tid hdrs tmo out of
                (tasks2, calls2, r) \<Rightarrow> (tasks2, calls @ calls2, r)))"

text \<open>
  \<^verbatim>\<open>TaskManager.process_task\<close>, one execution; \<open>retries\<close> is
  \<^verbatim>\<open>self.process_task.request.retries\<close>. A \<^verbatim>\<open>ScrapingException\<close> marks the
  task failed and, while \<open>retries < max_retries\<close>, asks Celery for a retry after
  \<open>60 * 2 ^ retries\<close> seconds; any other exception marks the task failed and returns.
\<close>

definition TaskManager_process_task ::
  "bool \<Rightarrow> nat \<Rightarrow> task_store \<Rightarrow> string \<Rightarrow> string \<Rightarrow> pyval \<Rightarrow> pyval \<Rightarrow> outcomes
     \<Rightarrow> task_store \<times> call list \<times> signal" where
  "TaskManager_process_task derived retries tasks tid u hdrs tmo out =
     (case TaskManager_process_task_body tasks tid hdrs tmo out of
        (tasks1, calls, Inr done) \<Rightarrow> (tasks1, calls, Returned)
      | (tasks1, calls, Inl e) \<Rightarrow>
          if is_ScrapingException derived e then
            (let tasks2 = TaskManager_update_task_failure tasks1 tid (str_exn e) (now_end out)
             in if retries < max_retries
                then (tasks2, calls, Retry e (60 * 2 ^ retries))
                else (tasks2, calls, Returned))
          else
            (TaskManager_update_task_failure tasks1 tid (''Internal error: '' @ str_exn e)
               (now_end out),
             calls, Returned))"



section \<open>The in-process queue: \<^verbatim>\<open>app/services/queue.py\<close>\<close>

text \<open>
  The task storage, the clock, and the durations of the \<^verbatim>\<open>asyncio.sleep\<close> calls
  made so far. The storage is taken to answer every call.
\<close>

record queue_state =
  storage :: "string \<rightharpoonup> TaskResponse"
  clock :: nat
  sleeps :: "nat list"

definition QueueManager_update_status :: "queue_state \<Rightarrow> string \<Rightarrow> TaskStatus \<Rightarrow> queue_state" where
  "QueueManager_update_status s tid st =
     (case storage s tid of
        None \<Rightarrow> s
      | Some task \<Rightarrow>
          s \<lparr> storage := (storage s)(tid \<mapsto> task \<lparr> status := st, updated_at := clock s \<rparr>) \<rparr>)"

definition QueueManager_update_success :: "queue_state \<Rightarrow> string \<Rightarrow> pyval \<Rightarrow> queue_state" where
  "QueueManager_update_success s tid res =
     (case storage s tid of
        None \<Rightarrow> s
      | Some task \<Rightarrow>
          s \<lparr> storage := (storage s)(tid \<mapsto>
                task \<lparr> status := COMPLETED, completed_at := Some (clock s),
                       updated_at := clock s, result := Some res \<rparr>) \<rparr>)"

definition QueueManager_update_failure :: "queue_state \<Rightarrow> string \<Rightarrow> string \<Rightarrow> queue_state" where
  "QueueManager_update_failure s tid err =
     (case storage s tid of
        None \<Rightarrow> s
      | Some task \<Rightarrow>
          s \<lparr> storage := (storage s)(tid \<mapsto>
                task \<lparr> status := FAILED, completed_at := Some (clock s),
                       updated_at := clock s, error := Some err \<rparr>) \<rparr>)"

definition asyncio_sleep :: "nat \<Rightarrow> queue_state \<Rightarrow> queue_state" where
  "asyncio_sleep d s = s \<lparr> clock := clock s + d, sleeps := sleeps s @ [d] \<rparr>"

definition max_attempts :: nat where
  "max_attempts = 3"

text \<open>
  The \<^verbatim>\<open>while\<close> loop of \<^verbatim>\<open>QueueManager._process_task\<close>, from the value
  \<open>attempt\<close> of its counter. \<open>crawl k\<close> is what \<^verbatim>\<open>crawler.scrape\<close> answers
  when the counter is \<open>k\<close>. The result is the final counter and state.
\<close>

function QueueManager_process_task_loop ::
  "(nat \<Rightarrow> exn + pyval) \<Rightarrow> string \<Rightarrow> nat \<Rightarrow> queue_state \<Rightarrow> nat \<times> queue_state" where
  "QueueManager_process_task_loop crawl tid attempt s =
     (if attempt < max_attempts then
        (let s1 = QueueManager_update_status s tid PROCESSING in
         case crawl attempt of
           Inr res \<Rightarrow> (attempt, QueueManager_update_success s1 tid res)
         | Inl e \<Rightarrow>
             if attempt + 1 \<ge> max_attempts
             then (attempt + 1, QueueManager_update_failure s1 tid (str_exn e))
             else QueueManager_process_task_loop crawl tid (attempt + 1)
                    (asyncio_sleep (60 * 2 ^ (attempt + 1)) s1))
      else (attempt, s))"
  by pat_completeness auto
termination
  by (relation "measure (\<lambda>(crawl, tid, attempt, s). max_attempts - attempt)") auto

text \<open>\<^verbatim>\<open>QueueManager._process_task\<close>: the counter starts at 0.\<close>

definition QueueManager_process_task ::
  "(nat \<Rightarrow> exn + pyval) \<Rightarrow> string \<Rightarrow> queue_state \<Rightarrow> nat \<times> queue_state" where
  "QueueManager_process_task crawl tid s = QueueManager_process_task_loop crawl tid 0 s"

section \<open>Failure handling with regeneration: \<^verbatim>\<open>app/services/queue_service.py\<close>\<close>





section \<open>Example inputs\<close>

text \<open>
  A page with four images (the second has no \<^verbatim>\<open>src\<close>, the fourth repeats the
  first), two headings and nothing else.
\<close>

definition page :: soup where
  "page = \<lparr> soup_select = (\<lambda>s.
       if s = PStr ''img'' then
         Inr [Tag [(''src'', ''a.png'')] [], Tag [(''alt'', ''x'')] [],
              Tag [(''src'', ''b.png'')] [], Tag [(''src'', ''a.png'')] []]
       else if s = PStr ''h1'' then Inr [Tag [] ''Hello'', Tag [] ''World'']
       else Inr []),
     soup_find_all = (\<lambda>s. Inl (Exn TypeError ''xpath'')) \<rparr>"

definition img_no_attr :: ExtractionRule where
  "img_no_attr = \<lparr> selector = PStr ''img'', selector_type = PEnum CSS,
     attribute = PNone, post_process = PNone \<rparr>"

definition img_src :: ExtractionRule where
  "img_src = \<lparr> selector = PStr ''img'', selector_type = PEnum CSS,
     attribute = PStr ''src'', post_process = PNone \<rparr>"

definition title_rule :: ExtractionRule where
  "title_rule = \<lparr> selector = PStr ''h1'', selector_type = PEnum CSS,
     attribute = PNone, post_process = PNone \<rparr>"

definition author_rule :: ExtractionRule where
  "author_rule = \<lparr> selector = PStr ''.author'', selector_type = PEnum CSS,
     attribute = PNone, post_process = PNone \<rparr>"


text \<open>
  A recipe for \<^verbatim>\<open>example.com\<close>, as the generator's dataclasses are annotated (every
  selector type a member of \<^verbatim>\<open>SelectorType\<close>), and what parsing its dictionary
  gives.
\<close>

definition video_rule :: ExtractionRule where
  "video_rule = \<lparr> selector = PStr ''video'', selector_type = PEnum CSS,
     attribute = PStr ''src'', post_process = PStr ''strip'' \<rparr>"

definition recipe0 :: DomainConfig where
  "recipe0 = \<lparr> domain = PStr ''example.com'', use_headless = PBool False,
     use_proxy = PBool False, timeout = PInt 30, user_agent = PNone, proxy_config = PNone,
     retry_count = PInt 3,
     extraction_rules = [(''title'', title_rule), (''author'', author_rule)],
     media_rules = \<lparr> images = img_src, videos = video_rule, embeds = img_no_attr \<rparr> \<rparr>"

definition recipe0_reloaded :: DomainConfig where
  "recipe0_reloaded = recipe0 \<lparr> media_rules :=
     \<lparr> images = img_src \<lparr> selector_type := PStr ''css'' \<rparr>,
       videos = video_rule \<lparr> selector_type := PStr ''css'', post_process := PNone \<rparr>,
       embeds = img_no_attr \<lparr> selector_type := PStr ''css'' \<rparr> \<rparr> \<rparr>"

text \<open>A queued task and the store that holds it.\<close>

definition task0 :: TaskResponse where
  "task0 = \<lparr> task_id = ''t1'', url = ''https://example.com/article'', status = QUEUED,
     created_at = 0, updated_at = 0, completed_at = None, result = None, error = None \<rparr>"

definition tasks0 :: task_store where
  "tasks0 = [''t1'' \<mapsto> task0]"

definition cfg0 :: config_value where
  "cfg0 = CDict [(''selector'', PStr ''h1''), (''timeout'', PInt 30)]"

text \<open>
  Three executions of \<^verbatim>\<open>process_task\<close>. In \<open>degraded\<close> both scrapes find no
  content; in \<open>fine\<close> the first scrape succeeds; in \<open>regeneration_fails\<close> the first
  scrape finds no content and \<^verbatim>\<open>generate_config(url, force_refresh=True)\<close> raises
  (the \<^verbatim>\<open>generate_config\<close> of \<^verbatim>\<open>SchemaGenerator\<close> takes no such keyword).
\<close>

definition degraded :: outcomes where
  "degraded = \<lparr> now_start = 10, load_config_result = Inr cfg0,
     generate_config_result = Inr cfg0,
     scrape_result = Inl (Exn MissingContentError ''no title''),
     regenerate_config_result = Inr cfg0,
     rescrape_result = Inl (Exn MissingContentError ''no title''),
     now_end = 20 \<rparr>"




text \<open>The state of the in-process queue with the queued task; a fetch that always times out.\<close>

definition queue0 :: queue_state where
  "queue0 = \<lparr> storage = [''t1'' \<mapsto> task0], clock = 0, sleeps = [] \<rparr>"

definition always_timeout :: "nat \<Rightarrow> exn + pyval" where
  "always_timeout k = Inl (Exn Timeout ''timed out'')"














section \<open>Properties of the extraction engine\<close>

lemma extract_with_selector_total:
  "\<exists>v. ContentScraper_extract_with_selector sp rule = Inr v"
  by (simp add: ContentScraper_extract_with_selector_def split: sum.split)

lemma extract_with_selector_no_match:
  "matching_elements sp rule = Inr [] \<Longrightarrow>
     ContentScraper_extract_with_selector sp rule = Inr None"
  by (simp add: ContentScraper_extract_with_selector_def
      ContentScraper_extract_with_selector_body_def matching_elements_def split: if_splits)

lemma scrape_fields_other_key:
  "field \<notin> fst ` set rules \<Longrightarrow> ContentScraper_scrape_fields sp rules content = Inr content'
     \<Longrightarrow> content' field = content field"
proof (induction rules arbitrary: content)
  case Nil
  then show ?case by simp
next
  case (Cons fr rules)
  obtain f r where fr: "fr = (f, r)" by (cases fr)
  obtain v where v: "ContentScraper_extract_with_selector sp r = Inr v"
    using extract_with_selector_total by blast
  from Cons.prems fr v
  have c: "ContentScraper_scrape_fields sp rules (content(f \<mapsto> v)) = Inr content'"
    by simp
  from Cons.prems fr have nf: "field \<notin> fst ` set rules" and ne: "field \<noteq> f"
    by auto
  from Cons.IH [OF nf c] ne show ?case by simp
qed

lemma scrape_fields_result:
  "distinct (map fst rules) \<Longrightarrow>
   \<exists>content'. ContentScraper_scrape_fields sp rules content = Inr content'
      \<and> dom content' = dom content \<union> fst ` set rules
      \<and> (\<forall>(f, r) \<in> set rules. \<exists>v. content' f = Some v
            \<and> ContentScraper_extract_with_selector sp r = Inr v)"
proof (induction rules arbitrary: content)
  case Nil
  then show ?case by simp
next
  case (Cons fr rules)
  obtain f r where fr: "fr = (f, r)" by (cases fr)
  obtain v where v: "ContentScraper_extract_with_selector sp r = Inr v"
    using extract_with_selector_total by blast
  from Cons.prems have d: "distinct (map fst rules)" and nf: "f \<notin> fst ` set rules"
    using fr by auto
  from Cons.IH [OF d, of "content(f \<mapsto> v)"] obtain content' where
    c: "ContentScraper_scrape_fields sp rules (content(f \<mapsto> v)) = Inr content'"
    and dm: "dom content' = dom (content(f \<mapsto> v)) \<union> fst ` set rules"
    and al: "\<forall>(f, r) \<in> set rules. \<exists>v. content' f = Some v
            \<and> ContentScraper_extract_with_selector sp r = Inr v"
    by blast
  have here: "content' f = Some v"
    using scrape_fields_other_key [OF nf c] by simp
  have "ContentScraper_scrape_fields sp (fr # rules) content = Inr content'"
    using fr v c by simp
  moreover have "dom content' = dom content \<union> fst ` set (fr # rules)"
    using dm fr by auto
  moreover have "\<forall>(f, r) \<in> set (fr # rules). \<exists>v. content' f = Some v
            \<and> ContentScraper_extract_with_selector sp r = Inr v"
    using al here v fr by auto
  ultimately show ?case by blast
qed

text \<open>
  Claim C5. A field rule whose selector matches no node gives \<^verbatim>\<open>None\<close> for that
  field. No call of \<^verbatim>\<open>_extract_with_selector\<close> raises, whatever the document and
  the rule. The loop over the field rules of a recipe (a dictionary: its keys are distinct)
  therefore runs to its end: it returns a dictionary that has an entry for every field of
  the recipe, the entry of each field being what its own rule extracts, and the entry of
  the field without a match being \<^verbatim>\<open>None\<close>.
\<close>

theorem no_match_gives_absent_field:
  assumes "matching_elements sp rule = Inr []"
    and "distinct (map fst rules)"
    and "(field, rule) \<in> set rules"
  shows "ContentScraper_extract_with_selector sp rule = Inr None
     \<and> (\<forall>sp' rule'. \<exists>v. ContentScraper_extract_with_selector sp' rule' = Inr v)
     \<and> (\<exists>content'. ContentScraper_scrape_fields sp rules content = Inr content'
          \<and> content' field = Some None
          \<and> dom content' = dom content \<union> fst ` set rules
          \<and> (\<forall>(f, r) \<in> set rules. \<exists>v. content' f = Some v
                \<and> ContentScraper_extract_with_selector sp r = Inr v))"
proof -
  have absent: "ContentScraper_extract_with_selector sp rule = Inr None"
    using assms(1) by (rule extract_with_selector_no_match)
  from scrape_fields_result [OF assms(2), of sp content] obtain content' where
    c: "ContentScraper_scrape_fields sp rules content = Inr content'"
    and dm: "dom content' = dom content \<union> fst ` set rules"
    and al: "\<forall>(f, r) \<in> set rules. \<exists>v. content' f = Some v
            \<and> ContentScraper_extract_with_selector sp r = Inr v"
    by blast
  from al assms(3) obtain v where "content' field = Some v"
    and "ContentScraper_extract_with_selector sp rule = Inr v"
    by blast
  with absent have "content' field = Some None" by simp
  with absent c dm al extract_with_selector_total show ?thesis by blast
qed

theorem no_match_gives_absent_field_witness:
  "matching_elements page author_rule = Inr []
     \<and> distinct (map fst [(''author'', author_rule), (''title'', title_rule)])
     \<and> ContentScraper_extract_with_selector page author_rule = Inr None
     \<and> ContentScraper_extract_with_selector page title_rule = Inr (Some ''Hello'')"
proof -
  have h1: "matching_elements page author_rule = Inr []"
    by (simp add: matching_elements_def page_def author_rule_def)
  have h2: "distinct (map fst [(''author'', author_rule), (''title'', title_rule)])"
    by simp
  have h3: "(''author'', author_rule) \<in> set [(''author'', author_rule), (''title'', title_rule)]"
    by simp
  have t: "ContentScraper_extract_with_selector page title_rule = Inr (Some ''Hello'')"
    by (simp add: ContentScraper_extract_with_selector_def
        ContentScraper_extract_with_selector_body_def page_def title_rule_def)
  from no_match_gives_absent_field [OF h1 h2 h3, of Map.empty] h1 h2 t
  show ?thesis by simp
qed





lemma media_loop_no_attribute:
  "\<not> truthy attr \<Longrightarrow> ContentScraper_extract_media_loop attr els urls = Inr urls"
  by (induction els arbitrary: urls) simp_all

text \<open>
  Claim C10. When the attribute of a media rule is unset (\<^verbatim>\<open>None\<close>, or any value
  Python takes as false), \<^verbatim>\<open>ContentScraper._extract_media\<close> returns the empty list,
  whatever the selector matches.
\<close>

theorem media_without_attribute_is_empty:
  "\<not> truthy (attribute rule) \<Longrightarrow> ContentScraper_extract_media sp rule = Inr []"
  by (simp add: ContentScraper_extract_media_def media_loop_no_attribute split: sum.split)

theorem media_without_attribute_is_empty_witness:
  "\<not> truthy (attribute img_no_attr) \<and> matching_elements page img_no_attr \<noteq> Inr []
     \<and> ContentScraper_extract_media page img_no_attr = Inr []"
proof -
  have h: "\<not> truthy (attribute img_no_attr)" by (simp add: img_no_attr_def)
  have m: "matching_elements page img_no_attr \<noteq> Inr []"
    by (simp add: matching_elements_def img_no_attr_def page_def)
  from media_without_attribute_is_empty [OF h, of page] h m show ?thesis by simp
qed

section \<open>Properties of the recipe store\<close>

lemma enum_value_Inr:
  "enum_value v = Inr s \<Longrightarrow> \<exists>e. v = PEnum e \<and> SelectorType_of s = Inr (PEnum e)"
  by (cases v rule: enum_value.cases) auto

lemma extraction_rules_round_trip:
  "extraction_rules_to_dict rules = Inr ds \<Longrightarrow> parse_extraction_rules ds = Inr rules"
proof (induction rules arbitrary: ds)
  case Nil
  then show ?case by simp
next
  case (Cons kv rules)
  obtain k v where kv: "kv = (k, v)" by (cases kv)
  from Cons.prems kv obtain st ds' where
    st: "enum_value (selector_type v) = Inr st"
    and ds': "extraction_rules_to_dict rules = Inr ds'"
    and ds: "ds = (k, PDict [(''selector'', selector v), (''selector_type'', st),
                       (''attribute'', attribute v), (''post_process'', post_process v)]) # ds'"
    by (cases "enum_value (selector_type v)"; cases "extraction_rules_to_dict rules") auto
  from enum_value_Inr [OF st] obtain e where e: "selector_type v = PEnum e"
    and pe: "SelectorType_of st = Inr (PEnum e)" by blast
  from Cons.IH [OF ds'] have ih: "parse_extraction_rules ds' = Inr rules" .
  have "\<lparr> selector = selector v, selector_type = PEnum e, attribute = attribute v,
          post_process = post_process v \<rparr> = v"
    using e by simp
  with ds ih pe kv show ?case by (simp add: dict_get_def)
qed

lemma media_rule_reload:
  "enum_value (selector_type r) = Inr st \<Longrightarrow>
   ExtractionRule_kwargs (PDict [(''selector'', selector r), (''selector_type'', st),
        (''attribute'', attribute r)]) = Inr (reloaded_media_rule r)"
  by (simp add: reloaded_media_rule_def dict_get_def)

text \<open>
  What \<^verbatim>\<open>_parse_config\<close> makes of the dictionary of any recipe: the field rules
  and the scalar fields come back as they were; each media rule comes back with the string
  of its selector type in place of the member, and without its post-processing.
\<close>

lemma to_dict_then_parse:
  assumes "DomainConfig_to_dict c = Inr d"
  shows "SchemaGenerator_parse_config d =
     Inr (c \<lparr> media_rules :=
            \<lparr> images = reloaded_media_rule (images (media_rules c)),
              videos = reloaded_media_rule (videos (media_rules c)),
              embeds = reloaded_media_rule (embeds (media_rules c)) \<rparr> \<rparr>)"
proof -
  from assms obtain ds it vt et where
    ds: "extraction_rules_to_dict (extraction_rules c) = Inr ds"
    and it: "enum_value (selector_type (images (media_rules c))) = Inr it"
    and vt: "enum_value (selector_type (videos (media_rules c))) = Inr vt"
    and et: "enum_value (selector_type (embeds (media_rules c))) = Inr et"
    unfolding DomainConfig_to_dict_def
    by (cases "extraction_rules_to_dict (extraction_rules c)";
        cases "enum_value (selector_type (images (media_rules c)))";
        cases "enum_value (selector_type (videos (media_rules c)))";
        cases "enum_value (selector_type (embeds (media_rules c)))") auto
  from assms ds it vt et have d: "d = PDict
         [(''domain'', domain c),
          (''use_headless'', use_headless c),
          (''use_proxy'', use_proxy c),
          (''timeout'', timeout c),
          (''user_agent'', user_agent c),
          (''proxy_config'', proxy_config c),
          (''retry_count'', retry_count c),
          (''extraction_rules'', PDict ds),
          (''media_rules'', PDict
             [(''images'', PDict
                 [(''selector'', selector (images (media_rules c))),
                  (''selector_type'', it),
                  (''attribute'', attribute (images (media_rules c)))]),
              (''videos'', PDict
                 [(''selector'', selector (videos (media_rules c))),
                  (''selector_type'', vt),
                  (''attribute'', attribute (videos (media_rules c)))]),
              (''embeds'', PDict
                 [(''selector'', selector (embeds (media_rules c))),
                  (''selector_type'', et),
                  (''attribute'', attribute (embeds (media_rules c)))])])]"
    by (simp add: DomainConfig_to_dict_def)
  show ?thesis
    unfolding d SchemaGenerator_parse_config_def
    by (simp add: extraction_rules_round_trip [OF ds] media_rule_reload [OF it]
        media_rule_reload [OF vt] media_rule_reload [OF et] dict_get_def
        del: ExtractionRule_kwargs.simps)
qed

lemma recipe0_to_dict_ok: "\<exists>d. DomainConfig_to_dict recipe0 = Inr d"
  by (simp add: DomainConfig_to_dict_def recipe0_def title_rule_def author_rule_def
      img_src_def video_rule_def img_no_attr_def)

lemma recipe0_reloads:
  "bind_exn (DomainConfig_to_dict recipe0) SchemaGenerator_parse_config = Inr recipe0_reloaded"
proof -
  from recipe0_to_dict_ok obtain d where d: "DomainConfig_to_dict recipe0 = Inr d" by blast
  have "SchemaGenerator_parse_config d = Inr recipe0_reloaded"
    unfolding to_dict_then_parse [OF d]
    by (simp add: recipe0_reloaded_def reloaded_media_rule_def recipe0_def img_src_def
        video_rule_def img_no_attr_def)
  with d show ?thesis by simp
qed

text \<open>
  Claim C4, at the recipe \<open>recipe0\<close>. Serializing it with \<^verbatim>\<open>to_dict\<close> and parsing
  the dictionary with \<^verbatim>\<open>_parse_config\<close> gives \<open>recipe0_reloaded\<close>, which is not
  \<open>recipe0\<close>: the selector type of each media rule is now the string
  \<^verbatim>\<open>"css"\<close> and the post-processing of the video rule is gone. The difference
  shows in extraction: the image rule of \<open>recipe0\<close> collects the three image addresses
  of the example page, the reloaded rule (whose selector type no longer equals
  \<^verbatim>\<open>SelectorType.CSS\<close>) collects none.
\<close>

theorem round_trip_changes_media_rules:
  "bind_exn (DomainConfig_to_dict recipe0) SchemaGenerator_parse_config = Inr recipe0_reloaded
     \<and> recipe0_reloaded \<noteq> recipe0
     \<and> selector_type (images (media_rules recipe0)) = PEnum CSS
     \<and> selector_type (images (media_rules recipe0_reloaded)) = PStr ''css''
     \<and> post_process (videos (media_rules recipe0)) = PStr ''strip''
     \<and> post_process (videos (media_rules recipe0_reloaded)) = PNone
     \<and> ContentScraper_extract_media page (images (media_rules recipe0))
         = Inr [''a.png'', ''b.png'', ''a.png'']
     \<and> ContentScraper_extract_media page (images (media_rules recipe0_reloaded)) = Inr []"
proof -
  have a: "selector_type (images (media_rules recipe0)) = PEnum CSS"
    by (simp add: recipe0_def img_src_def)
  have b: "selector_type (images (media_rules recipe0_reloaded)) = PStr ''css''"
    by (simp add: recipe0_reloaded_def)
  have c: "post_process (videos (media_rules recipe0)) = PStr ''strip''"
    by (simp add: recipe0_def video_rule_def)
  have d: "post_process (videos (media_rules recipe0_reloaded)) = PNone"
    by (simp add: recipe0_reloaded_def)
  from a b have ne: "recipe0_reloaded \<noteq> recipe0" by auto
  have e: "ContentScraper_extract_media page (images (media_rules recipe0))
         = Inr [''a.png'', ''b.png'', ''a.png'']"
    by (simp add: recipe0_def img_src_def ContentScraper_extract_media_def page_def)
  have f: "ContentScraper_extract_media page (images (media_rules recipe0_reloaded)) = Inr []"
    by (simp add: recipe0_reloaded_def img_src_def ContentScraper_extract_media_def page_def)
  from recipe0_reloads ne a b c d e f show ?thesis by simp
qed

section \<open>Properties of the task pipeline\<close>



declare QueueManager_process_task_loop.simps [simp del]


lemma process_task_loop_retry:
  "attempt + 1 < max_attempts \<Longrightarrow> crawl attempt = Inl e \<Longrightarrow>
   QueueManager_process_task_loop crawl tid attempt s =
     QueueManager_process_task_loop crawl tid (attempt + 1)
       (asyncio_sleep (60 * 2 ^ (attempt + 1)) (QueueManager_update_status s tid PROCESSING))"
  by (subst QueueManager_process_task_loop.simps) simp

lemma process_task_loop_step:
  "attempt' = attempt + 1 \<Longrightarrow> attempt' < max_attempts \<Longrightarrow> crawl attempt = Inl e \<Longrightarrow>
   QueueManager_process_task_loop crawl tid attempt s =
     QueueManager_process_task_loop crawl tid attempt'
       (asyncio_sleep (60 * 2 ^ attempt') (QueueManager_update_status s tid PROCESSING))"
  using process_task_loop_retry [of attempt crawl e tid s] by simp

lemma process_task_loop_stop:
  "attempt' = attempt + 1 \<Longrightarrow> attempt < max_attempts \<Longrightarrow> \<not> attempt' < max_attempts
     \<Longrightarrow> crawl attempt = Inl e \<Longrightarrow>
   QueueManager_process_task_loop crawl tid attempt s =
     (attempt',
      QueueManager_update_failure (QueueManager_update_status s tid PROCESSING) tid (str_exn e))"
  by (subst QueueManager_process_task_loop.simps) simp

lemma sleeps_update_status [simp]:
  "sleeps (QueueManager_update_status s tid st) = sleeps s"
  by (simp add: QueueManager_update_status_def split: option.split)

lemma sleeps_update_failure [simp]:
  "sleeps (QueueManager_update_failure s tid err) = sleeps s"
  by (simp add: QueueManager_update_failure_def split: option.split)

lemma sleeps_asyncio_sleep [simp]:
  "sleeps (asyncio_sleep d s) = sleeps s @ [d]"
  by (simp add: asyncio_sleep_def)

lemma storage_update_status_dom:
  "storage s tid = Some task \<Longrightarrow>
   \<exists>task'. storage (QueueManager_update_status s tid st) tid = Some task'"
  by (simp add: QueueManager_update_status_def)

lemma storage_asyncio_sleep [simp]:
  "storage (asyncio_sleep d s) = storage s"
  by (simp add: asyncio_sleep_def)

lemma status_update_failure:
  "storage s tid = Some task \<Longrightarrow>
   map_option status (storage (QueueManager_update_failure s tid err) tid) = Some FAILED"
  by (simp add: QueueManager_update_failure_def)

lemma three_failures:
  assumes "crawl 0 = Inl e0" and "crawl 1 = Inl e1" and "crawl 2 = Inl e2"
    and "storage s tid = Some task"
  shows "fst (QueueManager_process_task crawl tid s) = 3"
    and "sleeps (snd (QueueManager_process_task crawl tid s)) = sleeps s @ [120, 240]"
    and "map_option status (storage (snd (QueueManager_process_task crawl tid s)) tid)
           = Some FAILED"
proof -
  let ?s1 = "asyncio_sleep 120 (QueueManager_update_status s tid PROCESSING)"
  let ?s2 = "asyncio_sleep 240 (QueueManager_update_status ?s1 tid PROCESSING)"
  let ?s3 = "QueueManager_update_status ?s2 tid PROCESSING"
  have a: "QueueManager_process_task_loop crawl tid 0 s
             = QueueManager_process_task_loop crawl tid 1 ?s1"
    using process_task_loop_step [of 1 0 crawl e0 tid s] assms(1)
    by (simp add: max_attempts_def)
  have b: "QueueManager_process_task_loop crawl tid 1 ?s1
             = QueueManager_process_task_loop crawl tid 2 ?s2"
    using process_task_loop_step [of 2 1 crawl e1 tid ?s1] assms(2)
    by (simp add: max_attempts_def)
  have c: "QueueManager_process_task_loop crawl tid 2 ?s2
             = (3, QueueManager_update_failure ?s3 tid (str_exn e2))"
    using process_task_loop_stop [of 3 2 crawl e2 tid ?s2] assms(3)
    by (simp add: max_attempts_def)
  have r: "QueueManager_process_task crawl tid s
             = (3, QueueManager_update_failure ?s3 tid (str_exn e2))"
    by (simp only: QueueManager_process_task_def a b c)
  show "fst (QueueManager_process_task crawl tid s) = 3"
    by (simp add: r)
  show "sleeps (snd (QueueManager_process_task crawl tid s)) = sleeps s @ [120, 240]"
    by (simp add: r)
  from storage_update_status_dom [OF assms(4), of PROCESSING]
  obtain t1 where "storage ?s1 tid = Some t1" by auto
  from storage_update_status_dom [OF this, of PROCESSING]
  obtain t2 where "storage ?s2 tid = Some t2" by auto
  from storage_update_status_dom [OF this, of PROCESSING]
  obtain t3 where "storage ?s3 tid = Some t3" by auto
  from status_update_failure [OF this]
  show "map_option status (storage (snd (QueueManager_process_task crawl tid s)) tid)
           = Some FAILED"
    by (simp add: r)
qed

lemma retry_countdown:
  "snd (snd (TaskManager_process_task derived retries tasks tid u hdrs tmo out))
     = Retry e countdown \<Longrightarrow> retries < max_retries \<and> countdown = 60 * 2 ^ retries"
  by (auto simp: TaskManager_process_task_def Let_def split: prod.splits sum.splits if_splits)

text \<open>
  Claim C3, as the code has it. In the loop of \<^verbatim>\<open>QueueManager._process_task\<close> a
  failed attempt increments \<open>attempt\<close> and, while the incremented count is below
  \<open>max_attempts = 3\<close>, the next attempt follows after a sleep of
  \<open>60 * 2 ^ attempt\<close> seconds. When every attempt fails, the task ends \<open>FAILED\<close>
  with \<open>attempt = 3\<close> and the delays between the three attempts are \<open>60 * 2\<close> and
  \<open>60 * 4\<close>; the third failure is final and no third delay follows. In the Celery task
  manager a retry is raised only while \<open>retries < max_retries\<close>, with countdown
  \<open>60 * 2 ^ retries\<close>.
\<close>

theorem backoff_schedule:
  "(attempt + 1 < max_attempts \<and> crawl attempt = Inl e \<longrightarrow>
      QueueManager_process_task_loop crawl tid attempt s =
        QueueManager_process_task_loop crawl tid (attempt + 1)
          (asyncio_sleep (60 * 2 ^ (attempt + 1))
             (QueueManager_update_status s tid PROCESSING)))
   \<and> ((\<forall>k < max_attempts. \<exists>e'. crawl k = Inl e') \<and> storage s tid = Some task \<longrightarrow>
        fst (QueueManager_process_task crawl tid s) = 3
        \<and> sleeps (snd (QueueManager_process_task crawl tid s)) = sleeps s @ [60 * 2, 60 * 4]
        \<and> map_option status (storage (snd (QueueManager_process_task crawl tid s)) tid)
            = Some FAILED)
   \<and> (snd (snd (TaskManager_process_task derived retries tasks tid u hdrs tmo out))
          = Retry e'' countdown \<longrightarrow>
        retries < max_retries \<and> countdown = 60 * 2 ^ retries)"
proof (intro conjI impI)
  assume "attempt + 1 < max_attempts \<and> crawl attempt = Inl e"
  then show "QueueManager_process_task_loop crawl tid attempt s =
        QueueManager_process_task_loop crawl tid (attempt + 1)
          (asyncio_sleep (60 * 2 ^ (attempt + 1))
             (QueueManager_update_status s tid PROCESSING))"
    using process_task_loop_retry by blast
next
  assume h: "(\<forall>k < max_attempts. \<exists>e'. crawl k = Inl e') \<and> storage s tid = Some task"
  then obtain e0 e1 e2 where f: "crawl 0 = Inl e0" "crawl 1 = Inl e1" "crawl 2 = Inl e2"
    unfolding max_attempts_def
    by (metis (no_types) numeral_2_eq_2 numeral_3_eq_3 lessI less_Suc_eq zero_less_Suc One_nat_def)
  from h have st: "storage s tid = Some task" by simp
  show "fst (QueueManager_process_task crawl tid s) = 3"
    using three_failures(1) [OF f st] .
  show "sleeps (snd (QueueManager_process_task crawl tid s)) = sleeps s @ [60 * 2, 60 * 4]"
    using three_failures(2) [OF f st] by simp
  show "map_option status (storage (snd (QueueManager_process_task crawl tid s)) tid)
            = Some FAILED"
    using three_failures(3) [OF f st] .
next
  assume r: "snd (snd (TaskManager_process_task derived retries tasks tid u hdrs tmo out))
          = Retry e'' countdown"
  from retry_countdown [OF r] show "retries < max_retries" by simp
  from retry_countdown [OF r] show "countdown = 60 * 2 ^ retries" by simp
qed

lemma degraded_retry:
  "snd (snd (TaskManager_process_task False 0 tasks0 ''t1'' ''https://example.com/article''
        PNone (PInt 30) degraded))
     = Retry (Exn ScrapingException ''Scraping failed after config regeneration: no title'') 60"
  by (simp add: TaskManager_process_task_def TaskManager_process_task_body_def
      TaskManager_get_or_generate_def TaskManager_scrape_with_regeneration_def
      config_after_settings_def dict_get_def dict_set_def
      is_ScrapingException_def max_retries_def cfg0_def degraded_def)

theorem backoff_schedule_witness:
  "(0::nat) + 1 < max_attempts
     \<and> always_timeout 0 = Inl (Exn Timeout ''timed out'')
     \<and> storage queue0 ''t1'' = Some task0
     \<and> fst (QueueManager_process_task always_timeout ''t1'' queue0) = 3
     \<and> sleeps (snd (QueueManager_process_task always_timeout ''t1'' queue0)) = [120, 240]
     \<and> map_option status (storage (snd (QueueManager_process_task always_timeout ''t1'' queue0))
          ''t1'') = Some FAILED
     \<and> (0::nat) < max_retries"
proof -
  have h1: "(0::nat) + 1 < max_attempts" by (simp add: max_attempts_def)
  have h2: "always_timeout 0 = Inl (Exn Timeout ''timed out'')" by (simp add: always_timeout_def)
  have h3: "\<forall>k < max_attempts. \<exists>e'. always_timeout k = Inl e'" by (simp add: always_timeout_def)
  have h4: "storage queue0 ''t1'' = Some task0" by (simp add: queue0_def)
  have h5: "sleeps queue0 = []" by (simp add: queue0_def)
  note r = degraded_retry
  from backoff_schedule [where attempt = 0 and crawl = always_timeout
      and e = "Exn Timeout ''timed out''" and tid = "''t1''" and s = queue0 and task = task0
      and derived = False and retries = 0 and tasks = tasks0
      and u = "''https://example.com/article''" and hdrs = PNone and tmo = "PInt 30"
      and out = degraded
      and e'' = "Exn ScrapingException ''Scraping failed after config regeneration: no title''"
      and countdown = 60]
    h1 h2 h3 h4 h5 r
  show ?thesis by simp
qed

text \<open>
  Against claim C3 as stated: three consecutive timeouts give two delays, not three.
\<close>

theorem three_timeouts_counterexample:
  "\<not> (sleeps (snd (QueueManager_process_task always_timeout ''t1'' queue0))
        = [60 * 2, 60 * 4, 60 * 8])"
proof -
  have "sleeps (snd (QueueManager_process_task always_timeout ''t1'' queue0))
          = sleeps queue0 @ [120, 240]"
    by (rule three_failures(2) [of always_timeout _ _ _ queue0 "''t1''" task0])
       (simp_all add: always_timeout_def queue0_def)
  then show ?thesis by (simp add: queue0_def)
qed



























end
